theory Spec2Isabelle
  imports Main "HOL-Library.Word" "HOL-Library.List_Lexorder" "HOL-Library.Multiset"
begin

section \<open>JavaScript values\<close>

text \<open>
  A JavaScript string is a sequence of 16-bit code units. The Romanian letters the
  collation key handles lie outside Latin-1, so code units are kept as 16-bit words;
  \<open>js\<close> turns an ASCII literal into such a sequence.
\<close>

type_synonym jsstring = "16 word list"

definition js :: "string \<Rightarrow> jsstring" where
  "js s = map of_char s"

text \<open>
  The values a field of a fetched JSON object holds in the data model of the site are
  scalars: \<open>null\<close>, booleans, integers and strings; \<open>JUndefined\<close> is what reading a
  missing property gives. \<open>JNative t\<close> is a member every object inherits from
  \<open>Object.prototype\<close> (a built-in function, or the prototype itself); \<open>t\<close> is the
  text its \<open>toString()\<close> returns. Numbers are unbounded integers: the rounding of
  IEEE doubles beyond \<open>2^53\<close> is not part of the model.
\<close>

datatype jsval =
    JUndefined
  | JNull
  | JBool bool
  | JNum int
  | JStr jsstring
  | JNative jsstring

text \<open>The result of an arithmetic expression: an integer or \<open>NaN\<close>.\<close>

datatype jsnum = NaN | Num int

datatype error = TypeError

fun truthy :: "jsval \<Rightarrow> bool" where
  "truthy JUndefined = False"
| "truthy JNull = False"
| "truthy (JBool b) = b"
| "truthy (JNum n) = (n \<noteq> 0)"
| "truthy (JStr s) = (s \<noteq> [])"
| "truthy (JNative t) = True"

text \<open>\<open>a || b\<close>\<close>

definition or_else :: "jsval \<Rightarrow> jsval \<Rightarrow> jsval" where
  "or_else a b = (if truthy a then a else b)"

text \<open>\<open>x || 0\<close> on a number: \<open>NaN\<close> and \<open>0\<close> are falsy.\<close>

fun or_zero :: "jsnum \<Rightarrow> jsnum" where
  "or_zero NaN = Num 0"
| "or_zero (Num n) = Num n"

fun num_add :: "jsnum \<Rightarrow> jsnum \<Rightarrow> jsnum" where
  "num_add (Num a) (Num b) = Num (a + b)"
| "num_add _ _ = NaN"

fun num_sub :: "jsnum \<Rightarrow> jsnum \<Rightarrow> jsnum" where
  "num_sub (Num a) (Num b) = Num (a - b)"
| "num_sub _ _ = NaN"

fun num_mul :: "jsnum \<Rightarrow> jsnum \<Rightarrow> jsnum" where
  "num_mul (Num a) (Num b) = Num (a * b)"
| "num_mul _ _ = NaN"

subsection \<open>Decimal text of a number\<close>

definition digit_char :: "nat \<Rightarrow> 16 word" where
  "digit_char d = of_nat (48 + d)"

fun show_nat :: "nat \<Rightarrow> jsstring" where
  "show_nat n = (if n < 10 then [digit_char n] else show_nat (n div 10) @ [digit_char (n mod 10)])"

declare show_nat.simps [simp del]

definition show_int :: "int \<Rightarrow> jsstring" where
  "show_int i = (if i < 0 then 0x2D # show_nat (nat (- i)) else show_nat (nat i))"

text \<open>\<open>String(v)\<close>, also what \<open>v.toString()\<close> gives on a value that has the method.\<close>

fun toString :: "jsval \<Rightarrow> jsstring" where
  "toString JUndefined = js ''undefined''"
| "toString JNull = js ''null''"
| "toString (JBool b) = (if b then js ''true'' else js ''false'')"
| "toString (JNum n) = show_int n"
| "toString (JStr s) = s"
| "toString (JNative t) = t"

subsection \<open>Objects\<close>

text \<open>
  An object parsed from JSON is a list of its own properties. Reading a property that
  the object does not own goes to \<open>Object.prototype\<close>, whose members are listed here
  with the text a V8 host prints for them.
\<close>

type_synonym jsobject = "(jsstring \<times> jsval) list"

definition native_function :: "string \<Rightarrow> jsstring \<times> jsval" where
  "native_function name = (js name, JNative (js (''function '' @ name @ ''() { [native code] }'')))"

definition object_prototype :: jsobject where
  "object_prototype =
    [ native_function ''constructor'',
      native_function ''__defineGetter__'',
      native_function ''__defineSetter__'',
      native_function ''hasOwnProperty'',
      native_function ''__lookupGetter__'',
      native_function ''__lookupSetter__'',
      native_function ''isPrototypeOf'',
      native_function ''propertyIsEnumerable'',
      native_function ''toString'',
      native_function ''valueOf'',
      (js ''__proto__'', JNative (js ''[object Object]'')),
      native_function ''toLocaleString'' ]"

text \<open>\<open>obj[key]\<close>\<close>

definition get_prop :: "jsobject \<Rightarrow> jsstring \<Rightarrow> jsval" where
  "get_prop obj key =
    (case map_of obj key of
       Some v \<Rightarrow> v
     | None \<Rightarrow> (case map_of object_prototype key of Some v \<Rightarrow> v | None \<Rightarrow> JUndefined))"

subsection \<open>\<open>String.prototype.split\<close> with a one-character separator\<close>

fun split :: "'a \<Rightarrow> 'a list \<Rightarrow> 'a list list" where
  "split sep [] = [[]]"
| "split sep (c # cs) =
    (if c = sep then [] # split sep cs
     else (case split sep cs of [] \<Rightarrow> [[c]] | p # ps \<Rightarrow> (c # p) # ps))"

subsection \<open>\<open>parseInt\<close> with no radix argument\<close>

definition is_whitespace :: "16 word \<Rightarrow> bool" where
  "is_whitespace c \<longleftrightarrow>
     c \<in> set [0x09, 0x0A, 0x0B, 0x0C, 0x0D, 0x20, 0xA0, 0x1680, 0x2028, 0x2029,
              0x202F, 0x205F, 0x3000, 0xFEFF]
     \<or> (0x2000 \<le> c \<and> c \<le> 0x200A)"

definition digit_value :: "16 word \<Rightarrow> nat option" where
  "digit_value c =
    (if 0x30 \<le> c \<and> c \<le> 0x39 then Some (unat c - 48)
     else if 0x61 \<le> c \<and> c \<le> 0x7A then Some (unat c - 87)
     else if 0x41 \<le> c \<and> c \<le> 0x5A then Some (unat c - 55)
     else None)"

definition is_digit :: "nat \<Rightarrow> 16 word \<Rightarrow> bool" where
  "is_digit radix c = (case digit_value c of Some d \<Rightarrow> d < radix | None \<Rightarrow> False)"

definition digits_value :: "nat \<Rightarrow> jsstring \<Rightarrow> nat" where
  "digits_value radix z = foldl (\<lambda>acc c. acc * radix + the (digit_value c)) 0 z"

text \<open>The digits of the longest prefix in the radix; no digit at all is \<open>NaN\<close>.\<close>

definition parse_digits :: "nat \<Rightarrow> jsstring \<Rightarrow> jsnum" where
  "parse_digits radix s =
    (let z = takeWhile (is_digit radix) s
     in if z = [] then NaN else Num (int (digits_value radix z)))"

definition parse_unsigned :: "jsstring \<Rightarrow> jsnum" where
  "parse_unsigned s =
    (case s of
       c0 # c1 # rest \<Rightarrow>
         (if c0 = 0x30 \<and> (c1 = 0x78 \<or> c1 = 0x58) then parse_digits 16 rest
          else parse_digits 10 s)
     | _ \<Rightarrow> parse_digits 10 s)"

fun num_neg :: "jsnum \<Rightarrow> jsnum" where
  "num_neg NaN = NaN"
| "num_neg (Num n) = Num (- n)"

definition parseInt_string :: "jsstring \<Rightarrow> jsnum" where
  "parseInt_string input =
    (case dropWhile is_whitespace input of
       [] \<Rightarrow> NaN
     | c # cs \<Rightarrow>
         (if c = 0x2D then num_neg (parse_unsigned cs)
          else if c = 0x2B then parse_unsigned cs
          else parse_unsigned (c # cs)))"

definition parseInt :: "jsval \<Rightarrow> jsnum" where
  "parseInt v = parseInt_string (toString v)"

section \<open>Date Token Parser\<close>

text \<open>
  \<open>months[name] || 0\<close> as the product \<open>month * 100\<close> reads it: the number stored
  under an own key; \<open>NaN\<close> for a name found on \<open>Object.prototype\<close> (the value is a
  truthy object); \<open>0\<close> for any other name.
\<close>

definition months :: "(jsstring \<times> int) list" where
  "months =
    [ (js ''Jan'', 1), (js ''Feb'', 2), (js ''Mar'', 3), (js ''Apr'', 4),
      (js ''May'', 5), (js ''Jun'', 6), (js ''Jul'', 7), (js ''Aug'', 8),
      (js ''Sep'', 9), (js ''Oct'', 10), (js ''Nov'', 11), (js ''Dec'', 12) ]"

definition month_number :: "jsstring \<Rightarrow> jsnum" where
  "month_number name =
    (case map_of months name of
       Some k \<Rightarrow> or_zero (Num k)
     | None \<Rightarrow> (case map_of object_prototype name of Some v \<Rightarrow> NaN | None \<Rightarrow> Num 0))"

text \<open>The body of \<open>dateToSortableNumber\<close> once its argument is a non-empty string.\<close>

definition date_of_string :: "jsstring \<Rightarrow> jsnum" where
  "date_of_string dateStr =
    (let parts = split 0x20 dateStr in
     if length parts \<noteq> 2 then Num 0
     else
       let dayMonth = split 0x2D (parts ! 1) in
       if length dayMonth \<noteq> 2 then Num 0
       else
         let day = or_zero (parseInt_string (dayMonth ! 0));
             month = month_number (dayMonth ! 1)
         in num_add (num_mul month (Num 100)) day)"

text \<open>
  \<open>dateToSortableNumber(dateStr)\<close>. A falsy argument returns \<open>0\<close>; a truthy value
  that is not a string has no \<open>split\<close> method, and the call raises.
\<close>

definition dateToSortableNumber :: "jsval \<Rightarrow> error + jsnum" where
  "dateToSortableNumber dateStr =
    (if \<not> truthy dateStr then Inr (Num 0)
     else (case dateStr of
             JStr s \<Rightarrow> Inr (date_of_string s)
           | _ \<Rightarrow> Inl TypeError))"

section \<open>Locale Collation Key Builder\<close>

text \<open>
  \<open>String.prototype.toLowerCase\<close> on the code units the site's data uses: ASCII,
  Latin-1 and the Romanian capitals \<open>U+0102\<close>, \<open>U+0218\<close>, \<open>U+021A\<close>. Any other
  code unit is kept as it is; the rest of the host's case table is not modelled.
\<close>

definition toLowerCase_unit :: "16 word \<Rightarrow> 16 word" where
  "toLowerCase_unit c =
    (if 0x41 \<le> c \<and> c \<le> 0x5A then c + 0x20
     else if 0xC0 \<le> c \<and> c \<le> 0xDE \<and> c \<noteq> 0xD7 then c + 0x20
     else if c = 0x102 \<or> c = 0x218 \<or> c = 0x21A then c + 1
     else c)"

definition toLowerCase :: "jsstring \<Rightarrow> jsstring" where
  "toLowerCase s = map toLowerCase_unit s"

text \<open>The table of \<open>romanianSortKey\<close>, in the order the object literal lists it.\<close>

definition replacements :: "(16 word \<times> jsstring) list" where
  "replacements =
    [ (0x103, js ''a~1''), (0x102, js ''A~1''),
      (0xE2, js ''a~2''), (0xC2, js ''A~2''),
      (0xEE, js ''i~1''), (0xCE, js ''I~1''),
      (0x219, js ''s~1''), (0x218, js ''S~1''),
      (0x21B, js ''t~1''), (0x21A, js ''T~1'') ]"

text \<open>\<open>result.replace(new RegExp(c, 'g'), replacement)\<close> for a one-letter pattern.\<close>

definition replace_all :: "16 word \<Rightarrow> jsstring \<Rightarrow> jsstring \<Rightarrow> jsstring" where
  "replace_all c replacement s = concat (map (\<lambda>x. if x = c then replacement else [x]) s)"

definition romanianSortKey :: "jsstring \<Rightarrow> jsstring" where
  "romanianSortKey text =
    (if text = [] then []
     else foldl (\<lambda>result (char, replacement).
                   replace_all (toLowerCase_unit char) (toLowerCase replacement) result)
                (toLowerCase text) replacements)"

section \<open>Arrays and the store\<close>

text \<open>
  Arrays are mutable and shared by reference. The store is the list of all arrays
  allocated so far; a reference is an index into it, so a new array always gets a
  reference no older array has.
\<close>

type_synonym ref = nat

type_synonym 'a store = "'a list list"

definition lookup :: "'a store \<Rightarrow> ref \<Rightarrow> 'a list option" where
  "lookup h r = (if r < length h then Some (h ! r) else None)"

definition alloc :: "'a store \<Rightarrow> 'a list \<Rightarrow> ref \<times> 'a store" where
  "alloc h xs = (length h, h @ [xs])"

definition update :: "'a store \<Rightarrow> ref \<Rightarrow> 'a list \<Rightarrow> 'a store" where
  "update h r xs = h[r := xs]"

subsection \<open>\<open>Array.prototype.sort\<close> with a comparison function\<close>

text \<open>
  The host's sort is stable, and for a consistent comparison function every stable
  sort gives the same array. The model inserts each element into the sorted rest: an
  element moves behind those it compares greater than (\<open>v > 0\<close>) and stops at the
  first one where the comparison is negative, zero or \<open>NaN\<close>. An exception of the
  comparison function ends the sort.
\<close>

fun positive :: "jsnum \<Rightarrow> bool" where
  "positive NaN = False"
| "positive (Num n) = (0 < n)"

fun insert_sorted :: "('a \<Rightarrow> 'a \<Rightarrow> error + jsnum) \<Rightarrow> 'a \<Rightarrow> 'a list \<Rightarrow> error + 'a list" where
  "insert_sorted cmp x [] = Inr [x]"
| "insert_sorted cmp x (y # ys) =
    (case cmp x y of
       Inl e \<Rightarrow> Inl e
     | Inr v \<Rightarrow>
         (if positive v
          then (case insert_sorted cmp x ys of Inl e \<Rightarrow> Inl e | Inr zs \<Rightarrow> Inr (y # zs))
          else Inr (x # y # ys)))"

fun array_sort :: "('a \<Rightarrow> 'a \<Rightarrow> error + jsnum) \<Rightarrow> 'a list \<Rightarrow> error + 'a list" where
  "array_sort cmp [] = Inr []"
| "array_sort cmp (x # xs) =
    (case array_sort cmp xs of Inl e \<Rightarrow> Inl e | Inr ys \<Rightarrow> insert_sorted cmp x ys)"

section \<open>Comparator Engine\<close>

definition startsWith :: "jsstring \<Rightarrow> jsstring \<Rightarrow> bool" where
  "startsWith s p = (take (length p) s = p)"

text \<open>The comparison function \<open>sortCompetitions\<close> passes to \<open>sort\<close>.\<close>

definition compare_competitions ::
    "jsstring \<Rightarrow> bool \<Rightarrow> jsobject \<Rightarrow> jsobject \<Rightarrow> error + jsnum" where
  "compare_competitions column ascending a b =
    (let valA = or_else (get_prop a column) (JStr []);
         valB = or_else (get_prop b column) (JStr [])
     in
     if column = js ''id'' then
       (let idA = or_zero (parseInt valA);
            idB = or_zero (parseInt valB)
        in Inr (if ascending then num_sub idA idB else num_sub idB idA))
     else if startsWith column (js ''year_'') then
       (case dateToSortableNumber valA of
          Inl e \<Rightarrow> Inl e
        | Inr dateA \<Rightarrow>
            (case dateToSortableNumber valB of
               Inl e \<Rightarrow> Inl e
             | Inr dateB \<Rightarrow>
                 (if dateA = Num 0 \<and> dateB = Num 0 then Inr (Num 0)
                  else if dateA = Num 0 then Inr (Num 1)
                  else if dateB = Num 0 then Inr (Num (- 1))
                  else Inr (if ascending then num_sub dateA dateB else num_sub dateB dateA))))
     else
       (let keyA = romanianSortKey (toString valA);
            keyB = romanianSortKey (toString valB)
        in
        if keyA < keyB then Inr (Num (if ascending then - 1 else 1))
        else if keyA > keyB then Inr (Num (if ascending then 1 else - 1))
        else Inr (Num 0)))"

text \<open>
  \<open>sortCompetitions(data, column, ascending)\<close>: the spread \<open>[...data]\<close> allocates a
  copy, the copy is sorted in place and its reference is returned. A \<open>data\<close> that is
  no array cannot be spread.
\<close>

definition sortCompetitions ::
    "jsobject store \<Rightarrow> ref \<Rightarrow> jsstring \<Rightarrow> bool \<Rightarrow> error + (ref \<times> jsobject store)" where
  "sortCompetitions h data column ascending =
    (case lookup h data of
       None \<Rightarrow> Inl TypeError
     | Some xs \<Rightarrow>
         (let (sortedArr, h1) = alloc h xs in
          case array_sort (compare_competitions column ascending) xs of
            Inl e \<Rightarrow> Inl e
          | Inr ys \<Rightarrow> Inr (sortedArr, update h1 sortedArr ys)))"

section \<open>Table Renderer\<close>

text \<open>
  A table body is the list of its rows, a row the list of its cells, a cell its
  \<open>colspan\<close> (1 when the markup gives none) and its text. \<open>None\<close> stands for a page
  without the element.
\<close>

datatype cell = Cell (colspan: nat) (cell_text: jsstring)

type_synonym row = "cell list"

text \<open>Assigning to \<open>textContent\<close>: \<open>null\<close> and \<open>undefined\<close> give the empty text.\<close>

fun textContent :: "jsval \<Rightarrow> jsstring" where
  "textContent JUndefined = []"
| "textContent JNull = []"
| "textContent v = toString v"

text \<open>A cell whose text is \<open>competition[key] || ''\<close>.\<close>

definition field_cell :: "jsobject \<Rightarrow> jsstring \<Rightarrow> cell" where
  "field_cell competition key = Cell 1 (textContent (or_else (get_prop competition key) (JStr [])))"

definition yearKeys :: "jsstring list" where
  "yearKeys = [js ''year_2026'', js ''year_2025'', js ''year_2024'', js ''year_2023'']"

definition no_competitions :: "nat \<Rightarrow> row" where
  "no_competitions n = [Cell n (js ''No competitions found'')]"

definition populateTable1 :: "row list option \<Rightarrow> jsobject list option \<Rightarrow> row list option" where
  "populateTable1 tableBody competitions =
    (case tableBody of
       None \<Rightarrow> None
     | Some old \<Rightarrow>
         (case competitions of
            None \<Rightarrow> Some [no_competitions 8]
          | Some cs \<Rightarrow>
              if length cs = 0 then Some [no_competitions 8]
              else Some (map (\<lambda>competition.
                     [field_cell competition (js ''id''),
                      field_cell competition (js ''name''),
                      field_cell competition (js ''location''),
                      field_cell competition (js ''county'')]
                     @ map (field_cell competition) yearKeys) cs)))"

definition populateTable2 :: "row list option \<Rightarrow> jsobject list option \<Rightarrow> row list option" where
  "populateTable2 tableBody competitions =
    (case tableBody of
       None \<Rightarrow> None
     | Some old \<Rightarrow>
         (case competitions of
            None \<Rightarrow> Some [no_competitions 6]
          | Some cs \<Rightarrow>
              if length cs = 0 then Some [no_competitions 6]
              else Some (map (\<lambda>competition.
                     [field_cell competition (js ''name''),
                      field_cell competition (js ''location'')]
                     @ map (field_cell competition) yearKeys) cs)))"

definition populateTable3 :: "row list option \<Rightarrow> jsobject list option \<Rightarrow> row list option" where
  "populateTable3 tableBody competitions =
    (case tableBody of
       None \<Rightarrow> None
     | Some old \<Rightarrow>
         (case competitions of
            None \<Rightarrow> Some [no_competitions 5]
          | Some cs \<Rightarrow>
              if length cs = 0 then Some [no_competitions 5]
              else Some (map (\<lambda>competition.
                     [field_cell competition (js ''name'')]
                     @ map (field_cell competition) yearKeys) cs)))"

text \<open>The columns a row spans.\<close>

definition row_span :: "row \<Rightarrow> nat" where
  "row_span r = sum_list (map colspan r)"

section \<open>Chart Data Adapter\<close>

text \<open>
  The \<open>statistics\<close> object of the fetched document: five objects keyed by year. A
  year is a number, so the maps are keyed by integers.
\<close>

record statistics =
  total_competitions :: "int \<rightharpoonup> jsval"
  competitions_by_month :: "int \<rightharpoonup> jsval list"
  competitions_by_type :: "int \<rightharpoonup> jsobject"
  competitions_by_county :: "int \<rightharpoonup> jsobject"
  competitions_by_towns :: "int \<rightharpoonup> jsobject"

text \<open>What the five \<open>draw_highcharts_...\<close> calls receive.\<close>

record charts =
  drawn_total :: jsval
  drawn_months :: "jsval list"
  drawn_type :: jsobject
  drawn_county :: "(jsstring \<times> jsval) list"
  drawn_towns :: jsobject

text \<open>The county list built when the year has an entry \<open>c\<close>.\<close>

definition county_present :: "jsobject \<Rightarrow> (jsstring \<times> jsval) list" where
  "county_present c =
    [
      (js ''ro-ab'', get_prop c (js ''AB'')),
      (js ''ro-ar'', get_prop c (js ''AR'')),
      (js ''ro-ag'', get_prop c (js ''AG'')),
      (js ''ro-bi'', get_prop c (js ''B'')),
      (js ''ro-bc'', get_prop c (js ''BC'')),
      (js ''ro-bh'', get_prop c (js ''BH'')),
      (js ''ro-bn'', get_prop c (js ''BN'')),
      (js ''ro-bt'', get_prop c (js ''BT'')),
      (js ''ro-br'', get_prop c (js ''BR'')),
      (js ''ro-bv'', get_prop c (js ''BV'')),
      (js ''ro-bz'', get_prop c (js ''BZ'')),
      (js ''ro-cl'', get_prop c (js ''CL'')),
      (js ''ro-cs'', get_prop c (js ''CS'')),
      (js ''ro-cj'', get_prop c (js ''CJ'')),
      (js ''ro-ct'', get_prop c (js ''CT'')),
      (js ''ro-cv'', get_prop c (js ''CV'')),
      (js ''ro-db'', get_prop c (js ''DB'')),
      (js ''ro-dj'', get_prop c (js ''DJ'')),
      (js ''ro-gl'', get_prop c (js ''GL'')),
      (js ''ro-gr'', get_prop c (js ''GR'')),
      (js ''ro-gj'', get_prop c (js ''GJ'')),
      (js ''ro-hr'', get_prop c (js ''HR'')),
      (js ''ro-hd'', get_prop c (js ''HD'')),
      (js ''ro-il'', get_prop c (js ''IL'')),
      (js ''ro-is'', get_prop c (js ''IS'')),
      (js ''ro-if'', get_prop c (js ''IF'')),
      (js ''ro-mm'', get_prop c (js ''MM'')),
      (js ''ro-mh'', get_prop c (js ''MH'')),
      (js ''ro-ms'', get_prop c (js ''MS'')),
      (js ''ro-nt'', get_prop c (js ''NT'')),
      (js ''ro-ot'', get_prop c (js ''OT'')),
      (js ''ro-ph'', get_prop c (js ''PH'')),
      (js ''ro-sj'', get_prop c (js ''SJ'')),
      (js ''ro-sm'', get_prop c (js ''SM'')),
      (js ''ro-sb'', get_prop c (js ''SB'')),
      (js ''ro-sv'', get_prop c (js ''SV'')),
      (js ''ro-tr'', get_prop c (js ''TR'')),
      (js ''ro-tm'', get_prop c (js ''TM'')),
      (js ''ro-tl'', get_prop c (js ''TL'')),
      (js ''ro-vl'', get_prop c (js ''VL'')),
      (js ''ro-vs'', get_prop c (js ''VS'')),
      (js ''ro-vn'', get_prop c (js ''VN'')) ]"

text \<open>The county list built when the year has none.\<close>

definition county_absent :: "(jsstring \<times> jsval) list" where
  "county_absent =
    [
      (js ''ro-ab'', JNum 0), (js ''ro-ar'', JNum 0), (js ''ro-ag'', JNum 0), (js ''ro-bi'', JNum 0),
      (js ''ro-bc'', JNum 0), (js ''ro-bh'', JNum 0), (js ''ro-bn'', JNum 0), (js ''ro-bt'', JNum 0),
      (js ''ro-br'', JNum 0), (js ''ro-bv'', JNum 0), (js ''ro-bz'', JNum 0), (js ''ro-cl'', JNum 0),
      (js ''ro-cs'', JNum 0), (js ''ro-cj'', JNum 0), (js ''ro-ct'', JNum 0), (js ''ro-cv'', JNum 0),
      (js ''ro-db'', JNum 0), (js ''ro-dj'', JNum 0), (js ''ro-gl'', JNum 0), (js ''ro-gr'', JNum 0),
      (js ''ro-gj'', JNum 0), (js ''ro-hr'', JNum 0), (js ''ro-hd'', JNum 0), (js ''ro-il'', JNum 0),
      (js ''ro-is'', JNum 0), (js ''ro-if'', JNum 0), (js ''ro-mm'', JNum 0), (js ''ro-mh'', JNum 0),
      (js ''ro-ms'', JNum 0), (js ''ro-nt'', JNum 0), (js ''ro-ot'', JNum 0), (js ''ro-ph'', JNum 0),
      (js ''ro-sj'', JNum 0), (js ''ro-sm'', JNum 0), (js ''ro-sb'', JNum 0), (js ''ro-sv'', JNum 0),
      (js ''ro-tr'', JNum 0), (js ''ro-tm'', JNum 0), (js ''ro-tl'', JNum 0), (js ''ro-vl'', JNum 0),
      (js ''ro-vs'', JNum 0), (js ''ro-vn'', JNum 0) ]"

text \<open>The five values \<open>update_charts_by_year\<close> extracts, in the order of its branches.\<close>

definition chart_data :: "statistics \<Rightarrow> int \<Rightarrow> charts" where
  "chart_data jsonData year =
    \<lparr> drawn_total =
        (case total_competitions jsonData year of
           Some v \<Rightarrow> if truthy v then v else JNum 0
         | None \<Rightarrow> JNum 0),
      drawn_months =
        (case competitions_by_month jsonData year of
           Some v \<Rightarrow> v
         | None \<Rightarrow> [JNum 0, JNum 0, JNum 0, JNum 0, JNum 0, JNum 0,
                    JNum 0, JNum 0, JNum 0, JNum 0, JNum 0, JNum 0]),
      drawn_type =
        (case competitions_by_type jsonData year of
           Some v \<Rightarrow> v
         | None \<Rightarrow> [(js ''trail'', JNum 0), (js ''road'', JNum 0), (js ''other'', JNum 0)]),
      drawn_county =
        (case competitions_by_county jsonData year of
           Some c \<Rightarrow> county_present c
         | None \<Rightarrow> county_absent),
      drawn_towns =
        (case competitions_by_towns jsonData year of
           Some v \<Rightarrow> v
         | None \<Rightarrow> []) \<rparr>"

text \<open>
  The statistics page: the two globals kept for a redraw, the text of the \<open>text_year\<close>
  element and what was last handed to the charting library. Writing the year into a
  missing \<open>text_year\<close> element raises, after the globals were set.
\<close>

record stats_page =
  currentYear :: int
  currentJsonData :: "statistics option"
  text_year :: "jsstring option"
  drawn :: "charts option"

definition update_charts_by_year ::
    "stats_page \<Rightarrow> statistics \<Rightarrow> int \<Rightarrow> error option \<times> stats_page" where
  "update_charts_by_year p jsonData year =
    (let p1 = p\<lparr>currentYear := year, currentJsonData := Some jsonData\<rparr> in
     case text_year p1 of
       None \<Rightarrow> (Some TypeError, p1)
     | Some old \<Rightarrow>
         (None, p1\<lparr>text_year := Some (show_int year),
                   drawn := Some (chart_data jsonData year)\<rparr>))"

section \<open>Per-Table Sort State\<close>

record sort_entry =
  column :: jsstring
  ascending :: bool

text \<open>
  The page of all competitions: the store of arrays, the three global arrays, the
  three entries of \<open>sortState\<close> and the three table bodies. The header icons that
  \<open>updateSortIcons\<close> repaints are not part of the modelled document.
\<close>

record page =
  arrays :: "jsobject store"
  competitionsData :: ref
  moldovaCompetitionsData :: ref
  otherCompetitionsData :: ref
  table1 :: sort_entry
  table2 :: sort_entry
  table3 :: sort_entry
  body1 :: "row list option"
  body2 :: "row list option"
  body3 :: "row list option"

text \<open>The first statement of each \<open>sortTable\<close> function, on that table's entry.\<close>

definition toggle :: "sort_entry \<Rightarrow> jsstring \<Rightarrow> sort_entry" where
  "toggle entry columnId =
    (if column entry = columnId then entry\<lparr>ascending := \<not> ascending entry\<rparr>
     else entry\<lparr>column := columnId, ascending := True\<rparr>)"

text \<open>
  \<open>sortTable1(column)\<close>. The entry is written before the sort runs, so it stays
  written when the sort raises.
\<close>

definition sortTable1 :: "page \<Rightarrow> jsstring \<Rightarrow> error option \<times> page" where
  "sortTable1 p columnId =
    (let p1 = p\<lparr>table1 := toggle (table1 p) columnId\<rparr> in
     case sortCompetitions (arrays p1) (competitionsData p1) columnId (ascending (table1 p1)) of
       Inl e \<Rightarrow> (Some e, p1)
     | Inr (sortedArr, h) \<Rightarrow>
         (None, p1\<lparr>arrays := h, body1 := populateTable1 (body1 p1) (lookup h sortedArr)\<rparr>))"

definition sortTable2 :: "page \<Rightarrow> jsstring \<Rightarrow> error option \<times> page" where
  "sortTable2 p columnId =
    (let p1 = p\<lparr>table2 := toggle (table2 p) columnId\<rparr> in
     case sortCompetitions (arrays p1) (moldovaCompetitionsData p1) columnId (ascending (table2 p1)) of
       Inl e \<Rightarrow> (Some e, p1)
     | Inr (sortedArr, h) \<Rightarrow>
         (None, p1\<lparr>arrays := h, body2 := populateTable2 (body2 p1) (lookup h sortedArr)\<rparr>))"

definition sortTable3 :: "page \<Rightarrow> jsstring \<Rightarrow> error option \<times> page" where
  "sortTable3 p columnId =
    (let p1 = p\<lparr>table3 := toggle (table3 p) columnId\<rparr> in
     case sortCompetitions (arrays p1) (otherCompetitionsData p1) columnId (ascending (table3 p1)) of
       Inl e \<Rightarrow> (Some e, p1)
     | Inr (sortedArr, h) \<Rightarrow>
         (None, p1\<lparr>arrays := h, body3 := populateTable3 (body3 p1) (lookup h sortedArr)\<rparr>))"

section \<open>Bad-news table\<close>

record date =
  year :: int
  month :: int
  day :: int

record bad_news =
  original_date :: date
  competition :: jsstring
  status :: jsstring
  new_date :: "date option"




section \<open>Version badge\<close>

record version =
  version_id :: jsval
  date :: date











section \<open>Example data\<close>

text \<open>A page whose first table is sorted by name, descending; its arrays are empty.\<close>

definition example_page :: page where
  "example_page =
    \<lparr> arrays = [[], [], []],
      competitionsData = 0, moldovaCompetitionsData = 1, otherCompetitionsData = 2,
      table1 = \<lparr>column = js ''name'', ascending = False\<rparr>,
      table2 = \<lparr>column = js ''name'', ascending = True\<rparr>,
      table3 = \<lparr>column = js ''name'', ascending = True\<rparr>,
      body1 = Some [], body2 = Some [], body3 = Some [] \<rparr>"

text \<open>
  The key of the year's county object that the series reads for a county code: the
  two letters after \<open>ro-\<close> in upper case, except that \<open>ro-bi\<close> reads \<open>B\<close>.
\<close>

definition toUpperCase_ascii :: "16 word \<Rightarrow> 16 word" where
  "toUpperCase_ascii c = (if 0x61 \<le> c \<and> c \<le> 0x7A then c - 0x20 else c)"

definition county_key :: "jsstring \<Rightarrow> jsstring" where
  "county_key code = (if code = js ''ro-bi'' then js ''B'' else map toUpperCase_ascii (drop 3 code))"

text \<open>A document with no year at all, and the document \<open>{"2025": {"AB": 3, "B": 10}}\<close>.\<close>

definition empty_statistics :: statistics where
  "empty_statistics =
    \<lparr> total_competitions = Map.empty, competitions_by_month = Map.empty,
      competitions_by_type = Map.empty, competitions_by_county = Map.empty,
      competitions_by_towns = Map.empty \<rparr>"

definition example_statistics :: statistics where
  "example_statistics =
    empty_statistics
      \<lparr> competitions_by_county := [2025 \<mapsto> [(js ''AB'', JNum 3), (js ''B'', JNum 10)]] \<rparr>"


definition sort_date :: "jsstring \<Rightarrow> jsobject \<Rightarrow> error + jsnum" where
  "sort_date col a = dateToSortableNumber (or_else (get_prop a col) (JStr []))"

text \<open>Three records; two of them share the identifier 1, one has no date for 2025.\<close>

definition ana :: jsobject where
  "ana = [(js ''id'', JNum 1), (js ''name'', JStr (js ''Ana''))]"

definition bob :: jsobject where
  "bob = [(js ''id'', JStr (js ''1'')), (js ''name'', JStr (js ''Bob'')),
          (js ''year_2025'', JStr (js ''Sun 3-Feb''))]"

definition cora :: jsobject where
  "cora = [(js ''id'', JStr (js ''2'')), (js ''name'', JStr (js ''Cora'')),
           (js ''year_2025'', JStr (js ''Sat 24-Jan''))]"








section \<open>Properties\<close>

subsection \<open>Strings and objects\<close>

lemma length_js [simp]: "length (js s) = length s"
  by (simp add: js_def)

lemma unat_of_char: "unat (of_char c :: 16 word) = of_char c"
proof -
  have "(of_char c :: nat) mod 256 = of_char c"
    by (rule of_char_mod_256)
  then have "(of_char c :: nat) < 256"
    by (metis mod_less_divisor zero_less_numeral)
  then have lt: "(of_char c :: nat) < 65536"
    by linarith
  have "(of_char c :: 16 word) = of_nat (of_char c)"
    by (simp only: of_nat_of_char)
  then have "unat (of_char c :: 16 word) = (of_char c :: nat) mod 65536"
    by (simp add: unat_of_nat)
  then show ?thesis
    using lt by simp
qed

lemma js_eq [simp]: "js a = js b \<longleftrightarrow> a = b"
proof
  assume "js a = js b"
  then have "map unat (js a) = map unat (js b)" by simp
  then have "map (of_char :: char \<Rightarrow> nat) a = map of_char b"
    by (simp add: js_def unat_of_char comp_def)
  then show "a = b"
    using inj_of_char [where ?'a = nat] by (simp add: inj_map_eq_map)
qed simp

lemma prototype_names:
  "map fst object_prototype =
    map js [''constructor'', ''__defineGetter__'', ''__defineSetter__'', ''hasOwnProperty'',
      ''__lookupGetter__'', ''__lookupSetter__'', ''isPrototypeOf'', ''propertyIsEnumerable'',
      ''toString'', ''valueOf'', ''__proto__'', ''toLocaleString'']"
  by (simp add: object_prototype_def native_function_def)

lemma prototype_name_length: "k \<in> set (map fst object_prototype) \<Longrightarrow> 7 \<le> length k"
  unfolding prototype_names by (simp, elim disjE; simp)

lemma map_of_prototype_short: "length k < 7 \<Longrightarrow> map_of object_prototype k = None"
  using prototype_name_length [of k] by (force simp: map_of_eq_None_iff)

lemma get_prop_short:
  "length k < 7 \<Longrightarrow> get_prop obj k = (case map_of obj k of Some v \<Rightarrow> v | None \<Rightarrow> JUndefined)"
  by (simp add: get_prop_def map_of_prototype_short split: option.splits)

subsection \<open>Date token parser\<close>





























subsection \<open>Sorting\<close>

lemma insert_sorted_mset:
  "insert_sorted cmp x ys = Inr zs \<Longrightarrow> mset zs = add_mset x (mset ys)"
proof (induction ys arbitrary: zs)
  case Nil
  then show ?case by auto
next
  case (Cons y ys)
  then show ?case
    by (auto split: sum.splits if_splits)
qed

lemma array_sort_mset: "array_sort cmp xs = Inr ys \<Longrightarrow> mset ys = mset xs"
proof (induction xs arbitrary: ys)
  case Nil
  then show ?case by simp
next
  case (Cons x xs)
  then show ?case
    by (auto split: sum.splits dest: insert_sorted_mset)
qed

lemma array_sort_length: "array_sort cmp xs = Inr ys \<Longrightarrow> length ys = length xs"
  using array_sort_mset mset_eq_length by blast

lemma insert_sorted_total:
  assumes "\<And>y. y \<in> set ys \<Longrightarrow> \<exists>v. cmp x y = Inr v"
  shows "\<exists>zs. insert_sorted cmp x ys = Inr zs"
  using assms
proof (induction ys)
  case Nil
  show ?case by simp
next
  case (Cons y ys)
  obtain v where v: "cmp x y = Inr v" using Cons.prems by auto
  obtain zs where "insert_sorted cmp x ys = Inr zs" using Cons by auto
  with v show ?case by simp
qed

lemma array_sort_total:
  assumes "\<And>x y. x \<in> set xs \<Longrightarrow> y \<in> set xs \<Longrightarrow> \<exists>v. cmp x y = Inr v"
  shows "\<exists>ys. array_sort cmp xs = Inr ys"
  using assms
proof (induction xs)
  case Nil
  show ?case by simp
next
  case (Cons x xs)
  then obtain ys where ys: "array_sort cmp xs = Inr ys" by auto
  then have "set ys = set xs" using array_sort_mset mset_eq_setD by blast
  then have "\<exists>zs. insert_sorted cmp x ys = Inr zs"
    using Cons.prems by (intro insert_sorted_total) auto
  with ys show ?case by simp
qed



text \<open>A stable sort leaves an array alone that is in order already.\<close>

lemma array_sort_sorted:
  fixes k :: "'a \<Rightarrow> int"
  assumes "\<And>a b. cmp a b = Inr (Num (k a - k b))" "sorted (map k xs)"
  shows "array_sort cmp xs = Inr xs"
  using assms(2)
proof (induction xs)
  case Nil
  show ?case by simp
next
  case (Cons x xs)
  then have "array_sort cmp xs = Inr xs" by simp
  moreover have "insert_sorted cmp x xs = Inr (x # xs)"
  proof (cases xs)
    case Nil
    then show ?thesis by simp
  next
    case (Cons y ys)
    have "cmp x y = Inr (Num (k x - k y))" by (rule assms(1))
    moreover have "k x \<le> k y" using Cons.prems Cons by simp
    ultimately show ?thesis using Cons by simp
  qed
  ultimately show ?case by simp
qed


subsection \<open>The store\<close>

lemma lookup_append:
  "lookup (h @ [ys]) r = (if r = length h then Some ys else lookup h r)"
  by (auto simp: lookup_def nth_append)




lemma sortCompetitions_Inr:
  "sortCompetitions h data col asc = Inr (r, h') \<longleftrightarrow>
    (\<exists>xs ys. lookup h data = Some xs
      \<and> array_sort (compare_competitions col asc) xs = Inr ys
      \<and> r = length h \<and> h' = h @ [ys])"
  by (auto simp: sortCompetitions_def alloc_def update_def split: option.splits sum.splits)


subsection \<open>The comparison function of \<open>sortCompetitions\<close>\<close>



lemma year_not_id: "startsWith col (js ''year_'') \<Longrightarrow> col \<noteq> js ''id''"
proof
  assume "startsWith col (js ''year_'')" "col = js ''id''"
  then have "take 5 (js ''id'') = js ''year_''" by (simp add: startsWith_def)
  then have "length (take 5 (js ''id'')) = length (js ''year_'')" by simp
  then show False by simp
qed

lemma compare_year:
  assumes "startsWith col (js ''year_'')"
  shows "compare_competitions col asc a b =
    (case sort_date col a of
       Inl e \<Rightarrow> Inl e
     | Inr dateA \<Rightarrow>
         (case sort_date col b of
            Inl e \<Rightarrow> Inl e
          | Inr dateB \<Rightarrow>
              (if dateA = Num 0 \<and> dateB = Num 0 then Inr (Num 0)
               else if dateA = Num 0 then Inr (Num 1)
               else if dateB = Num 0 then Inr (Num (- 1))
               else Inr (if asc then num_sub dateA dateB else num_sub dateB dateA))))"
  using assms year_not_id [OF assms]
  unfolding compare_competitions_def sort_date_def Let_def by simp

lemma compare_text_total:
  assumes "\<not> startsWith col (js ''year_'')"
  shows "\<exists>v. compare_competitions col asc a b = Inr v"
  using assms by (simp add: compare_competitions_def Let_def)

lemma sort_date_string:
  "or_else (get_prop a col) (JStr []) = JStr s \<Longrightarrow> \<exists>v. sort_date col a = Inr v"
  by (simp add: sort_date_def dateToSortableNumber_def)

lemma compare_year_total:
  assumes "\<exists>s. or_else (get_prop a col) (JStr []) = JStr s"
    "\<exists>s. or_else (get_prop b col) (JStr []) = JStr s"
  shows "\<exists>v. compare_competitions col asc a b = Inr v"
proof (cases "startsWith col (js ''year_'')")
  case True
  obtain da db where "sort_date col a = Inr da" "sort_date col b = Inr db"
    using assms sort_date_string by blast
  then show ?thesis by (simp add: compare_year [OF True])
next
  case False
  then show ?thesis by (rule compare_text_total)
qed

text \<open>
  C10. The array \<open>sortCompetitions\<close> returns holds the records of its input, each as
  often as the input does, so it has the same length: whenever the call returns, for
  any column identifier and either direction. The call does return when \<open>data\<close> is an
  array and the column is no year column, or every record has a string (or nothing)
  in it; a year column with another value makes the date parser raise.
\<close>

theorem sortCompetitions_permutation:
  "(sortCompetitions h data col asc = Inr (r, h') \<longrightarrow>
      (\<exists>xs ys. lookup h data = Some xs \<and> lookup h' r = Some ys
         \<and> mset ys = mset xs \<and> length ys = length xs))
   \<and> (lookup h data = Some xs
        \<and> (startsWith col (js ''year_'') \<longrightarrow>
             (\<forall>a \<in> set xs. \<exists>s. or_else (get_prop a col) (JStr []) = JStr s)) \<longrightarrow>
      (\<exists>ys. sortCompetitions h data col asc = Inr (length h, h @ [ys])
         \<and> mset ys = mset xs \<and> length ys = length xs))"
proof (intro conjI impI)
  assume "sortCompetitions h data col asc = Inr (r, h')"
  then obtain xs ys where *: "lookup h data = Some xs"
    "array_sort (compare_competitions col asc) xs = Inr ys" "r = length h" "h' = h @ [ys]"
    unfolding sortCompetitions_Inr by blast
  then show "\<exists>xs ys. lookup h data = Some xs \<and> lookup h' r = Some ys
      \<and> mset ys = mset xs \<and> length ys = length xs"
    using array_sort_mset [OF *(2)] array_sort_length [OF *(2)] by (simp add: lookup_append)
next
  assume a: "lookup h data = Some xs
    \<and> (startsWith col (js ''year_'') \<longrightarrow>
         (\<forall>a \<in> set xs. \<exists>s. or_else (get_prop a col) (JStr []) = JStr s))"
  have "\<exists>v. compare_competitions col asc x y = Inr v" if "x \<in> set xs" "y \<in> set xs" for x y
  proof (cases "startsWith col (js ''year_'')")
    case True
    then show ?thesis using a that compare_year_total by blast
  next
    case False
    then show ?thesis by (rule compare_text_total)
  qed
  then obtain ys where ys: "array_sort (compare_competitions col asc) xs = Inr ys"
    using array_sort_total [of xs "compare_competitions col asc"] by blast
  then have "sortCompetitions h data col asc = Inr (length h, h @ [ys])"
    using a unfolding sortCompetitions_Inr by blast
  then show "\<exists>ys. sortCompetitions h data col asc = Inr (length h, h @ [ys])
      \<and> mset ys = mset xs \<and> length ys = length xs"
    using array_sort_mset [OF ys] array_sort_length [OF ys] by blast
qed

lemma sort_by_name: "sortCompetitions [[cora, ana, bob]] 0 (js ''name'') True =
    Inr (1, [[cora, ana, bob], [ana, bob, cora]])"
  by code_simp

theorem sortCompetitions_permutation_witness:
  "sortCompetitions [[cora, ana, bob]] 0 (js ''name'') True =
      Inr (1, [[cora, ana, bob], [ana, bob, cora]])
   \<and> mset [ana, bob, cora] = mset [cora, ana, bob]
   \<and> length [ana, bob, cora] = length [cora, ana, bob]"
proof -
  have l: "lookup [[cora, ana, bob]] 0 = Some [cora, ana, bob]"
    by (simp add: lookup_def)
  have n: "\<not> startsWith (js ''name'') (js ''year_'')"
    by (simp add: startsWith_def js_def)
  from sortCompetitions_permutation
    [of "[[cora, ana, bob]]" 0 "js ''name''" True 1 "[[cora, ana, bob], [ana, bob, cora]]"
      "[cora, ana, bob]"]
  show ?thesis
    using l n sort_by_name by (auto simp: lookup_append)
qed






subsection \<open>Frame of the sorts\<close>







subsection \<open>Records without a date\<close>

lemma compare_year_Inr:
  assumes "startsWith col (js ''year_'')" "compare_competitions col asc a b = Inr v"
  shows "\<exists>da db. sort_date col a = Inr da \<and> sort_date col b = Inr db"
proof (cases "sort_date col a")
  case (Inl e)
  then show ?thesis using assms(2) by (simp add: compare_year [OF assms(1)])
next
  case a: (Inr da)
  show ?thesis
  proof (cases "sort_date col b")
    case (Inl e)
    then show ?thesis using assms(2) a by (simp add: compare_year [OF assms(1)])
  next
    case (Inr db)
    then show ?thesis using a by simp
  qed
qed

lemma compare_year_values:
  assumes "startsWith col (js ''year_'')" "sort_date col a = Inr da" "sort_date col b = Inr db"
  shows "compare_competitions col asc a b =
    (if da = Num 0 \<and> db = Num 0 then Inr (Num 0)
     else if da = Num 0 then Inr (Num 1)
     else if db = Num 0 then Inr (Num (- 1))
     else Inr (if asc then num_sub da db else num_sub db da))"
  using assms(2,3) by (simp add: compare_year [OF assms(1)])

lemma compare_year_sentinel:
  assumes "startsWith col (js ''year_'')" "compare_competitions col asc x y = Inr v"
  shows "positive v \<Longrightarrow> sort_date col y = Inr (Num 0) \<Longrightarrow> sort_date col x = Inr (Num 0)"
    and "\<not> positive v \<Longrightarrow> sort_date col x = Inr (Num 0) \<Longrightarrow> sort_date col y = Inr (Num 0)"
proof -
  obtain dx dy where d: "sort_date col x = Inr dx" "sort_date col y = Inr dy"
    using compare_year_Inr [OF assms] by blast
  have v: "(if dx = Num 0 \<and> dy = Num 0 then Inr (Num 0)
     else if dx = Num 0 then Inr (Num 1)
     else if dy = Num 0 then Inr (Num (- 1))
     else Inr (if asc then num_sub dx dy else num_sub dy dx)) = (Inr v :: error + jsnum)"
    using assms(2) unfolding compare_year_values [OF assms(1) d] .
  show "positive v \<Longrightarrow> sort_date col y = Inr (Num 0) \<Longrightarrow> sort_date col x = Inr (Num 0)"
  proof -
    assume p: "positive v" and "sort_date col y = Inr (Num 0)"
    then have dy: "dy = Num 0" using d by simp
    show "sort_date col x = Inr (Num 0)"
    proof (cases "dx = Num 0")
      case True
      then show ?thesis using d by simp
    next
      case False
      then have "v = Num (- 1)" using v dy by simp
      then show ?thesis using p by simp
    qed
  qed
  show "\<not> positive v \<Longrightarrow> sort_date col x = Inr (Num 0) \<Longrightarrow> sort_date col y = Inr (Num 0)"
  proof -
    assume p: "\<not> positive v" and "sort_date col x = Inr (Num 0)"
    then have dx: "dx = Num 0" using d by simp
    show "sort_date col y = Inr (Num 0)"
    proof (cases "dy = Num 0")
      case True
      then show ?thesis using d by simp
    next
      case False
      then have "v = Num 1" using v dx by simp
      then show ?thesis using p by simp
    qed
  qed
qed

lemma insert_sorted_set: "insert_sorted cmp x ys = Inr zs \<Longrightarrow> set zs = insert x (set ys)"
proof -
  assume "insert_sorted cmp x ys = Inr zs"
  then have "mset zs = add_mset x (mset ys)"
    by (rule insert_sorted_mset)
  then have "set_mset (mset zs) = set_mset (add_mset x (mset ys))"
    by (rule arg_cong)
  then show ?thesis by simp
qed

text \<open>
  Insertion keeps a marked group at the end, when the comparison function never puts a
  marked element before an unmarked one.
\<close>

lemma insert_sorted_last:
  assumes up: "\<And>a b v. cmp a b = Inr v \<Longrightarrow> positive v \<Longrightarrow> s b \<Longrightarrow> s a"
    and down: "\<And>a b v. cmp a b = Inr v \<Longrightarrow> \<not> positive v \<Longrightarrow> s a \<Longrightarrow> s b"
  shows "insert_sorted cmp x ys = Inr zs \<Longrightarrow> sorted_wrt (\<lambda>a b. s a \<longrightarrow> s b) ys
    \<Longrightarrow> sorted_wrt (\<lambda>a b. s a \<longrightarrow> s b) zs"
proof (induction ys arbitrary: zs)
  case Nil
  then have "zs = [x]" by simp
  then show ?case by simp
next
  case (Cons y ys)
  have ins: "(case cmp x y of
       Inl e \<Rightarrow> Inl e
     | Inr v \<Rightarrow>
         (if positive v
          then (case insert_sorted cmp x ys of Inl e \<Rightarrow> Inl e | Inr zs \<Rightarrow> Inr (y # zs))
          else Inr (x # y # ys))) = Inr zs"
    using Cons.prems(1) by (simp only: insert_sorted.simps)
  have "(\<forall>z \<in> set ys. s y \<longrightarrow> s z) \<and> sorted_wrt (\<lambda>a b. s a \<longrightarrow> s b) ys"
    using Cons.prems(2) unfolding sorted_wrt.simps .
  then have head: "\<forall>z \<in> set ys. s y \<longrightarrow> s z" and rest: "sorted_wrt (\<lambda>a b. s a \<longrightarrow> s b) ys"
    by blast+
  obtain v where v: "cmp x y = Inr v"
    using ins by (cases "cmp x y") auto
  show ?case
  proof (cases "positive v")
    case True
    have ins': "(case insert_sorted cmp x ys of Inl e \<Rightarrow> Inl e | Inr zs \<Rightarrow> Inr (y # zs)) = Inr zs"
      using ins True by (simp only: v sum.case if_True)
    then obtain zs' where zs': "insert_sorted cmp x ys = Inr zs'" "zs = y # zs'"
      by (cases "insert_sorted cmp x ys") auto
    have tail: "sorted_wrt (\<lambda>a b. s a \<longrightarrow> s b) zs'"
      using Cons.IH [OF zs'(1) rest] .
    have yx: "s y \<Longrightarrow> s x"
      using up [OF v True] .
    have mem: "set zs' = insert x (set ys)"
      using zs'(1) by (rule insert_sorted_set)
    have "\<forall>z \<in> set zs'. s y \<longrightarrow> s z"
    proof (intro ballI impI)
      fix z
      assume z: "z \<in> set zs'" and sy: "s y"
      have "z = x \<or> z \<in> set ys"
        using z unfolding mem by (rule insertE) blast+
      then show "s z"
        using yx [OF sy] head sy by blast
    qed
    then show ?thesis
      unfolding zs'(2) sorted_wrt.simps using tail by blast
  next
    case False
    have zs: "zs = x # y # ys"
      using ins False by (simp add: v)
    have xy: "s x \<Longrightarrow> s y"
      using down [OF v False] .
    have "\<forall>z \<in> set (y # ys). s x \<longrightarrow> s z"
    proof (intro ballI impI)
      fix z
      assume z: "z \<in> set (y # ys)" and sx: "s x"
      have "z = y \<or> z \<in> set ys"
        using z unfolding list.set by (rule insertE) blast+
      then show "s z"
        using xy [OF sx] head by blast
    qed
    then show ?thesis
      unfolding zs sorted_wrt.simps using head rest by blast
  qed
qed

lemma array_sort_last:
  assumes up: "\<And>a b v. cmp a b = Inr v \<Longrightarrow> positive v \<Longrightarrow> s b \<Longrightarrow> s a"
    and down: "\<And>a b v. cmp a b = Inr v \<Longrightarrow> \<not> positive v \<Longrightarrow> s a \<Longrightarrow> s b"
  shows "array_sort cmp xs = Inr ys \<Longrightarrow> sorted_wrt (\<lambda>a b. s a \<longrightarrow> s b) ys"
proof (induction xs arbitrary: ys)
  case Nil
  then have "ys = []" by simp
  then show ?case by simp
next
  case (Cons x xs)
  have "(case array_sort cmp xs of Inl e \<Rightarrow> Inl e | Inr ys \<Rightarrow> insert_sorted cmp x ys) = Inr ys"
    using Cons.prems by (simp only: array_sort.simps)
  then obtain ys' where ys': "array_sort cmp xs = Inr ys'" "insert_sorted cmp x ys' = Inr ys"
    by (cases "array_sort cmp xs") auto
  have "sorted_wrt (\<lambda>a b. s a \<longrightarrow> s b) ys'"
    using Cons.IH [OF ys'(1)] .
  then show ?case
    using insert_sorted_last [where cmp = cmp and s = s, OF _ _ ys'(2)] up down by blast
qed

lemma array_sort_sentinel:
  assumes "startsWith col (js ''year_'')"
    "array_sort (compare_competitions col asc) xs = Inr ys"
  shows "sorted_wrt (\<lambda>a b. sort_date col a = Inr (Num 0) \<longrightarrow> sort_date col b = Inr (Num 0)) ys"
proof (rule array_sort_last [where cmp = "compare_competitions col asc"
      and s = "\<lambda>a. sort_date col a = Inr (Num 0)", OF _ _ assms(2)])
  fix a b v
  assume "compare_competitions col asc a b = Inr v" "positive v" "sort_date col b = Inr (Num 0)"
  then show "sort_date col a = Inr (Num 0)"
    using compare_year_sentinel(1) [OF assms(1)] by blast
next
  fix a b v
  assume "compare_competitions col asc a b = Inr v" "\<not> positive v" "sort_date col a = Inr (Num 0)"
  then show "sort_date col b = Inr (Num 0)"
    using compare_year_sentinel(2) [OF assms(1)] by blast
qed

text \<open>
  C4. In a year column, for either direction: a record whose date parses to the
  sentinel 0 compares greater than any record whose date parses to something else,
  and the other way round the comparison is negative; two records with sentinel dates
  compare equal. In the array \<open>sortCompetitions\<close> returns, only records with a
  sentinel date follow a record with a sentinel date, so every such record comes after
  all the records that have a date.
\<close>

theorem year_sort_sentinel_last:
  assumes "startsWith col (js ''year_'')"
  shows "(sort_date col a = Inr (Num 0) \<and> sort_date col b = Inr db \<and> db \<noteq> Num 0 \<longrightarrow>
        compare_competitions col asc a b = Inr (Num 1)
        \<and> compare_competitions col asc b a = Inr (Num (- 1)))
    \<and> (sort_date col a = Inr (Num 0) \<and> sort_date col b = Inr (Num 0) \<longrightarrow>
        compare_competitions col asc a b = Inr (Num 0))
    \<and> (sortCompetitions h data col asc = Inr (r, h') \<longrightarrow>
        (\<exists>ys. lookup h' r = Some ys
          \<and> (\<forall>i j. i < j \<and> j < length ys \<and> sort_date col (ys ! i) = Inr (Num 0) \<longrightarrow>
                sort_date col (ys ! j) = Inr (Num 0))))"
proof -
  have 1: "compare_competitions col asc a b = Inr (Num 1)
      \<and> compare_competitions col asc b a = Inr (Num (- 1))"
    if "sort_date col a = Inr (Num 0) \<and> sort_date col b = Inr db \<and> db \<noteq> Num 0"
    using that by (simp add: compare_year [OF assms])
  have 2: "compare_competitions col asc a b = Inr (Num 0)"
    if "sort_date col a = Inr (Num 0) \<and> sort_date col b = Inr (Num 0)"
    using that by (simp add: compare_year [OF assms])
  have 3: "\<exists>ys. lookup h' r = Some ys
      \<and> (\<forall>i j. i < j \<and> j < length ys \<and> sort_date col (ys ! i) = Inr (Num 0) \<longrightarrow>
            sort_date col (ys ! j) = Inr (Num 0))"
    if sc: "sortCompetitions h data col asc = Inr (r, h')"
  proof -
    obtain xs ys where *: "array_sort (compare_competitions col asc) xs = Inr ys"
      "r = length h" "h' = h @ [ys]"
      using sc unfolding sortCompetitions_Inr by blast
    have "sorted_wrt (\<lambda>a b. sort_date col a = Inr (Num 0) \<longrightarrow> sort_date col b = Inr (Num 0)) ys"
      using array_sort_sentinel [OF assms *(1)] .
    then have "\<forall>i j. i < j \<and> j < length ys \<and> sort_date col (ys ! i) = Inr (Num 0) \<longrightarrow>
        sort_date col (ys ! j) = Inr (Num 0)"
      by (auto simp: sorted_wrt_iff_nth_less)
    then show ?thesis using * by (simp add: lookup_append)
  qed
  show ?thesis using 1 2 3 by blast
qed

lemma get_prop_missing:
  "map_of obj k = None \<Longrightarrow> k \<notin> set (map fst object_prototype) \<Longrightarrow> get_prop obj k = JUndefined"
  by (simp add: get_prop_def map_of_eq_None_iff [symmetric])

lemma get_prop_own: "map_of obj k = Some v \<Longrightarrow> get_prop obj k = v"
  by (simp add: get_prop_def)

lemma year_2025: "startsWith (js ''year_2025'') (js ''year_'')"
  by (simp add: startsWith_def js_def)

lemma sort_date_ana: "sort_date (js ''year_2025'') ana = Inr (Num 0)"
proof -
  have "get_prop ana (js ''year_2025'') = JUndefined"
    by (rule get_prop_missing) (simp_all add: ana_def prototype_names)
  then show ?thesis
    by (simp add: sort_date_def or_else_def dateToSortableNumber_def)
qed

lemma date_sun: "dateToSortableNumber (JStr (js ''Sun 3-Feb'')) = Inr (Num 203)"
  by code_simp

lemma date_sat: "dateToSortableNumber (JStr (js ''Sat 24-Jan'')) = Inr (Num 124)"
  by code_simp

lemma sort_date_bob: "sort_date (js ''year_2025'') bob = Inr (Num 203)"
proof -
  have "get_prop bob (js ''year_2025'') = JStr (js ''Sun 3-Feb'')"
    by (rule get_prop_own) (simp add: bob_def)
  then show ?thesis
    using date_sun by (simp add: sort_date_def or_else_def js_def)
qed

lemma sort_date_cora: "sort_date (js ''year_2025'') cora = Inr (Num 124)"
proof -
  have "get_prop cora (js ''year_2025'') = JStr (js ''Sat 24-Jan'')"
    by (rule get_prop_own) (simp add: cora_def)
  then show ?thesis
    using date_sat by (simp add: sort_date_def or_else_def js_def)
qed

lemma sort_by_year_ascending:
  "sortCompetitions [[ana, bob, cora]] 0 (js ''year_2025'') True =
      Inr (1, [[ana, bob, cora], [cora, bob, ana]])"
  by (simp add: sortCompetitions_def lookup_def alloc_def update_def compare_year [OF year_2025]
      sort_date_ana sort_date_bob sort_date_cora)

lemma sort_by_year_descending:
  "sortCompetitions [[ana, bob, cora]] 0 (js ''year_2025'') False =
      Inr (1, [[ana, bob, cora], [bob, cora, ana]])"
  by (simp add: sortCompetitions_def lookup_def alloc_def update_def compare_year [OF year_2025]
      sort_date_ana sort_date_bob sort_date_cora)

theorem year_sort_sentinel_last_witness:
  "compare_competitions (js ''year_2025'') True ana bob = Inr (Num 1)
   \<and> compare_competitions (js ''year_2025'') False ana bob = Inr (Num 1)
   \<and> compare_competitions (js ''year_2025'') True bob ana = Inr (Num (- 1))
   \<and> compare_competitions (js ''year_2025'') False bob ana = Inr (Num (- 1))
   \<and> compare_competitions (js ''year_2025'') True ana ana = Inr (Num 0)
   \<and> sortCompetitions [[ana, bob, cora]] 0 (js ''year_2025'') True =
       Inr (1, [[ana, bob, cora], [cora, bob, ana]])
   \<and> sortCompetitions [[ana, bob, cora]] 0 (js ''year_2025'') False =
       Inr (1, [[ana, bob, cora], [bob, cora, ana]])"
  using year_sort_sentinel_last [OF year_2025, of ana bob "Num 203" True]
    year_sort_sentinel_last [OF year_2025, of ana bob "Num 203" False]
    year_sort_sentinel_last [OF year_2025, of ana ana "Num 0" True]
    sort_date_ana sort_date_bob sort_by_year_ascending sort_by_year_descending
  by simp

subsection \<open>Sorting by identifier\<close>










subsection \<open>Chart data\<close>

lemma length_county_absent: "length county_absent = 42"
  by (simp add: county_absent_def)

lemma length_county_present: "length (county_present c) = 42"
  by (simp add: county_present_def)

lemma county_codes_fixed: "map fst (county_present c) = map fst county_absent"
  by (simp add: county_present_def county_absent_def)

lemma county_codes_distinct: "distinct (map fst county_absent)"
  by (simp add: county_absent_def)

lemma county_code_length: "code \<in> set (map fst county_absent) \<Longrightarrow> length code = 5"
  unfolding county_absent_def by (simp, elim disjE; simp)

lemma county_keys_own:
  assumes "code \<in> set (map fst county_absent)"
  shows "map_of object_prototype (county_key code) = None"
proof -
  have "length (county_key code) < 7"
    using county_code_length [OF assms] by (simp add: county_key_def)
  then show ?thesis by (rule map_of_prototype_short)
qed

lemma county_absent_zero: "county_absent = map (\<lambda>code. (code, JNum 0)) (map fst county_absent)"
  by (simp add: county_absent_def)

lemma county_present_values:
  "map snd (county_present c) = map (\<lambda>code. get_prop c (county_key code)) (map fst county_absent)"
  by (simp add: county_present_def county_absent_def county_key_def js_def toUpperCase_ascii_def)

text \<open>With the \<open>text_year\<close> element on the page, the charts receive the extracted values.\<close>

lemma update_charts_by_year_draws:
  "text_year p = Some old \<Longrightarrow>
    update_charts_by_year p jsonData y =
      (None, p\<lparr>currentYear := y, currentJsonData := Some jsonData,
               text_year := Some (show_int y), drawn := Some (chart_data jsonData y)\<rparr>)"
  by (simp add: update_charts_by_year_def)

text \<open>
  C1, as the code has it. When the year has a county object, the county series has 42
  pairs: the codes are those of the all-zero default list, in its order and without
  repetition, and each code is paired with the value stored under its key of that
  object, or with \<open>undefined\<close> when the object has no such key.
\<close>

theorem county_series_present:
  assumes "competitions_by_county s y = Some c"
  shows "length (drawn_county (chart_data s y)) = 42
    \<and> map fst (drawn_county (chart_data s y)) = map fst county_absent
    \<and> distinct (map fst (drawn_county (chart_data s y)))
    \<and> map snd (drawn_county (chart_data s y)) =
        map (\<lambda>code. case map_of c (county_key code) of Some v \<Rightarrow> v | None \<Rightarrow> JUndefined)
          (map fst county_absent)"
proof -
  have d: "drawn_county (chart_data s y) = county_present c"
    using assms by (simp add: chart_data_def)
  have "get_prop c (county_key code) =
      (case map_of c (county_key code) of Some v \<Rightarrow> v | None \<Rightarrow> JUndefined)"
    if "code \<in> set (map fst county_absent)" for code
    using county_keys_own [of code] that by (simp add: get_prop_def split: option.splits)
  then have "map snd (county_present c) =
      map (\<lambda>code. case map_of c (county_key code) of Some v \<Rightarrow> v | None \<Rightarrow> JUndefined)
        (map fst county_absent)"
    unfolding county_present_values by (intro map_cong refl)
  then show ?thesis
    unfolding d
    by (simp only: length_county_present county_codes_fixed county_codes_distinct simp_thms)
qed

theorem county_series_present_witness:
  "length (drawn_county (chart_data example_statistics 2025)) = 42
   \<and> filter (\<lambda>p. snd p \<noteq> JUndefined) (drawn_county (chart_data example_statistics 2025)) =
       [(js ''ro-ab'', JNum 3), (js ''ro-bi'', JNum 10)]"
proof -
  have c: "competitions_by_county example_statistics 2025 = Some [(js ''AB'', JNum 3), (js ''B'', JNum 10)]"
    by (simp add: example_statistics_def)
  have z: "drawn_county (chart_data example_statistics 2025) =
      zip (map fst (drawn_county (chart_data example_statistics 2025)))
        (map snd (drawn_county (chart_data example_statistics 2025)))"
    by (simp add: zip_map_fst_snd)
  have "filter (\<lambda>p. snd p \<noteq> JUndefined) (drawn_county (chart_data example_statistics 2025)) =
      [(js ''ro-ab'', JNum 3), (js ''ro-bi'', JNum 10)]"
    using county_series_present [OF c]
    by (subst z) (simp add: county_absent_def county_key_def js_def toUpperCase_ascii_def)
  then show ?thesis
    using county_series_present [OF c] by simp
qed

text \<open>
  The claim as the specification states it fails on the document
  \<open>{"2025": {"AB": 3, "B": 10}}\<close>: the series has 42 pairs, not 41, and a county the
  year does not mention is paired with \<open>undefined\<close>, not with 0.
\<close>

theorem county_series_counterexample:
  "length (drawn_county (chart_data example_statistics 2025)) \<noteq> 41
   \<and> (js ''ro-ar'', JUndefined) \<in> set (drawn_county (chart_data example_statistics 2025))
   \<and> (js ''ro-ar'', JNum 0) \<notin> set (drawn_county (chart_data example_statistics 2025))"
proof -
  have d: "drawn_county (chart_data example_statistics 2025) =
      county_present [(js ''AB'', JNum 3), (js ''B'', JNum 10)]"
    by (simp add: chart_data_def example_statistics_def)
  have "get_prop [(js ''AB'', JNum 3), (js ''B'', JNum 10)] (js ''AR'') = JUndefined"
    by (simp add: get_prop_short)
  then have "(js ''ro-ar'', JUndefined) \<in> set (county_present [(js ''AB'', JNum 3), (js ''B'', JNum 10)])"
    by (simp add: county_present_def)
  moreover have "(js ''ro-ar'', JNum 0) \<notin> set (county_present [(js ''AB'', JNum 3), (js ''B'', JNum 10)])"
    by (simp add: county_present_def get_prop_short)
  ultimately show ?thesis
    unfolding d by (simp add: length_county_present)
qed

text \<open>
  C5, as the code has it. For a year that none of the five objects of the document
  has, the adapter hands over the total 0, twelve zero months, the type breakdown with
  trail, road and other at 0, a county series of 42 pairs, each code paired with 0,
  and an empty towns object.
\<close>

theorem chart_data_absent_year:
  assumes "total_competitions s y = None" "competitions_by_month s y = None"
    "competitions_by_type s y = None" "competitions_by_county s y = None"
    "competitions_by_towns s y = None"
  shows "chart_data s y =
      \<lparr> drawn_total = JNum 0,
        drawn_months = replicate 12 (JNum 0),
        drawn_type = [(js ''trail'', JNum 0), (js ''road'', JNum 0), (js ''other'', JNum 0)],
        drawn_county = map (\<lambda>code. (code, JNum 0)) (map fst county_absent),
        drawn_towns = [] \<rparr>
    \<and> length (drawn_county (chart_data s y)) = 42
    \<and> distinct (map fst (drawn_county (chart_data s y)))"
proof -
  have r: "replicate 12 (JNum 0) =
      [JNum 0, JNum 0, JNum 0, JNum 0, JNum 0, JNum 0, JNum 0, JNum 0, JNum 0, JNum 0, JNum 0, JNum 0]"
    by (simp add: numeral_eq_Suc)
  have d: "drawn_county (chart_data s y) = county_absent"
    using assms(4) by (simp add: chart_data_def)
  have "chart_data s y =
      \<lparr> drawn_total = JNum 0,
        drawn_months = replicate 12 (JNum 0),
        drawn_type = [(js ''trail'', JNum 0), (js ''road'', JNum 0), (js ''other'', JNum 0)],
        drawn_county = county_absent,
        drawn_towns = [] \<rparr>"
    using assms unfolding r by (simp add: chart_data_def)
  then show ?thesis
    using county_absent_zero d length_county_absent county_codes_distinct by simp
qed

theorem chart_data_absent_year_witness:
  "drawn_total (chart_data empty_statistics 2025) = JNum 0
   \<and> drawn_months (chart_data empty_statistics 2025) = replicate 12 (JNum 0)
   \<and> drawn_type (chart_data empty_statistics 2025) =
       [(js ''trail'', JNum 0), (js ''road'', JNum 0), (js ''other'', JNum 0)]
   \<and> map snd (drawn_county (chart_data empty_statistics 2025)) = replicate 42 (JNum 0)
   \<and> drawn_towns (chart_data empty_statistics 2025) = []"
proof -
  have e: "total_competitions empty_statistics 2025 = None"
    "competitions_by_month empty_statistics 2025 = None"
    "competitions_by_type empty_statistics 2025 = None"
    "competitions_by_county empty_statistics 2025 = None"
    "competitions_by_towns empty_statistics 2025 = None"
    by (simp_all add: empty_statistics_def)
  have "map snd (map (\<lambda>code. (code, JNum 0)) (map fst county_absent)) = replicate 42 (JNum 0)"
    using length_county_absent by (simp add: comp_def map_replicate_const)
  then show ?thesis
    using chart_data_absent_year [OF e] by simp
qed

text \<open>The claim as the specification states it fails: the default county series has 42 pairs.\<close>

theorem chart_data_absent_year_counterexample:
  "length (drawn_county (chart_data empty_statistics 2025)) \<noteq> 41"
  by (simp add: chart_data_def empty_statistics_def length_county_absent)

subsection \<open>Sort state\<close>

lemma table1_sortTable1: "table1 (snd (sortTable1 p c)) = toggle (table1 p) c"
  by (simp add: sortTable1_def Let_def split: sum.splits prod.splits)

lemma others_sortTable1:
  "table2 (snd (sortTable1 p c)) = table2 p \<and> table3 (snd (sortTable1 p c)) = table3 p"
  by (simp add: sortTable1_def Let_def split: sum.splits prod.splits)

text \<open>
  C6, as the code has it. After \<open>sortTable1\<close> the selected column is the active one
  of table 1; the direction is flipped when that column was active already and is
  ascending otherwise; the entries of the other two tables are untouched. Selecting
  the same column twice in a row leaves it active, and the direction is then ascending
  exactly when the column was active and ascending before the two selections: it is the
  direction the table had when the column was active, and descending when another
  column was.
\<close>

theorem sortTable1_toggle:
  "column (table1 (snd (sortTable1 p c))) = c
   \<and> ascending (table1 (snd (sortTable1 p c))) =
       (if column (table1 p) = c then \<not> ascending (table1 p) else True)
   \<and> column (table1 (snd (sortTable1 (snd (sortTable1 p c)) c))) = c
   \<and> ascending (table1 (snd (sortTable1 (snd (sortTable1 p c)) c))) =
       (column (table1 p) = c \<and> ascending (table1 p))
   \<and> table2 (snd (sortTable1 p c)) = table2 p
   \<and> table3 (snd (sortTable1 p c)) = table3 p"
  by (simp add: table1_sortTable1 others_sortTable1 toggle_def)

theorem sortTable1_toggle_witness:
  "column (table1 (snd (sortTable1 example_page (js ''id'')))) = js ''id''
   \<and> ascending (table1 (snd (sortTable1 example_page (js ''id''))))
   \<and> \<not> ascending (table1 (snd (sortTable1 (snd (sortTable1 example_page (js ''id''))) (js ''id''))))"
  using sortTable1_toggle [of example_page "js ''id''"]
  by (simp add: example_page_def js_def)

text \<open>
  The claim as the specification states it fails: with the name column active and
  descending, two clicks on it end descending.
\<close>

theorem sortTable1_twice_counterexample:
  "\<not> ascending (table1 (snd (sortTable1 (snd (sortTable1 example_page (js ''name''))) (js ''name''))))"
  by (simp add: table1_sortTable1 toggle_def example_page_def)

subsection \<open>Table renderer\<close>

text \<open>
  C8. Where the table body exists, a missing or an empty array of records leaves
  exactly one row in it, a single cell that spans 8 columns in the full table, 6 in
  the reduced one and 5 in the minimal one. That number is the column count of the
  shape: every row the same function writes, for any input, spans as many columns.
\<close>

theorem populateTable_empty:
  assumes "competitions = None \<or> competitions = Some []"
  shows "populateTable1 (Some old) competitions = Some [[Cell 8 (js ''No competitions found'')]]
    \<and> populateTable2 (Some old) competitions = Some [[Cell 6 (js ''No competitions found'')]]
    \<and> populateTable3 (Some old) competitions = Some [[Cell 5 (js ''No competitions found'')]]
    \<and> (\<forall>r \<in> set (the (populateTable1 (Some old) any)). row_span r = 8)
    \<and> (\<forall>r \<in> set (the (populateTable2 (Some old) any)). row_span r = 6)
    \<and> (\<forall>r \<in> set (the (populateTable3 (Some old) any)). row_span r = 5)"
proof -
  have "populateTable1 (Some old) competitions = Some [[Cell 8 (js ''No competitions found'')]]"
    using assms by (auto simp: populateTable1_def no_competitions_def)
  moreover have "populateTable2 (Some old) competitions = Some [[Cell 6 (js ''No competitions found'')]]"
    using assms by (auto simp: populateTable2_def no_competitions_def)
  moreover have "populateTable3 (Some old) competitions = Some [[Cell 5 (js ''No competitions found'')]]"
    using assms by (auto simp: populateTable3_def no_competitions_def)
  moreover have "\<forall>r \<in> set (the (populateTable1 (Some old) any)). row_span r = 8"
    by (auto simp: populateTable1_def no_competitions_def yearKeys_def field_cell_def
        row_span_def split: option.splits)
  moreover have "\<forall>r \<in> set (the (populateTable2 (Some old) any)). row_span r = 6"
    by (auto simp: populateTable2_def no_competitions_def yearKeys_def field_cell_def
        row_span_def split: option.splits)
  moreover have "\<forall>r \<in> set (the (populateTable3 (Some old) any)). row_span r = 5"
    by (auto simp: populateTable3_def no_competitions_def yearKeys_def field_cell_def
        row_span_def split: option.splits)
  ultimately show ?thesis by blast
qed

theorem populateTable_empty_witness:
  "populateTable1 (Some []) (Some []) = Some [[Cell 8 (js ''No competitions found'')]]
   \<and> populateTable2 (Some []) (Some []) = Some [[Cell 6 (js ''No competitions found'')]]
   \<and> populateTable3 (Some []) (Some []) = Some [[Cell 5 (js ''No competitions found'')]]
   \<and> map row_span (the (populateTable1 (Some []) (Some [[(js ''name'', JStr (js ''Ana''))]]))) = [8]"
  using populateTable_empty [of "Some []" "[]" "Some [[(js ''name'', JStr (js ''Ana''))]]"]
  by (simp add: populateTable1_def)

subsection \<open>Version badge\<close>








end
